theory Spec2Isabelle
  imports Complex_Main "HOL-Library.AList"
begin

section \<open>Data model of app.py\<close>

text \<open>
  An element is a Python \<open>dict\<close> from field name to string, as \<open>csv.DictReader\<close>
  produces one per row. It is an association list: \<open>map_of\<close> is \<open>dict.get\<close>,
  and \<open>AList.update\<close> is the item assignment \<open>element[k] = v\<close> (an existing
  key keeps its position, a new key goes to the end, as in a Python dict).
  Field values are strings, the values the reader gives for a complete row.
  The element collection is the list of rows, each row an object of its own; its in-place
  mutation is modelled by returning the collection after the call.
\<close>

type_synonym element = "(string \<times> string) list"

text \<open>
  One entry of groups.json, with the two keys the code reads: the label \<open>cs\<close> and the
  list of member symbols \<open>elements\<close>. The group table is the list of entries.
\<close>

record group =
  cs :: string
  elements :: "string list"

text \<open>The exceptions that the modelled functions can raise, with the offending key or text.\<close>

datatype py_error =
    KeyError string
  | ValueError string
  | StatisticsError
  | OverflowError
  | EOFError

text \<open>
  A Python float, a binary64 value: \<open>Finite q\<close> is the finite float whose exact value
  is the rational \<open>q\<close> (with \<open>Finite 0\<close> for \<open>0.0\<close>), \<open>NegZero\<close> is \<open>-0.0\<close>, and
  \<open>PosInf\<close>, \<open>NegInf\<close> and \<open>NaN\<close> are \<open>inf\<close>, \<open>-inf\<close> and \<open>nan\<close>.
\<close>

datatype py_float = Finite rat | NegZero | PosInf | NegInf | NaN

text \<open>
  The lines the functions print. Each constructor stands for one \<open>print\<close> call of app.py:
  \<^item> \<open>MsgSearchResult\<close>: the search result banner of \<open>search_element\<close> (line 52);
  \<^item> \<open>MsgNotFound\<close>: the element-not-found line of \<open>search_element\<close> (line 56);
  \<^item> \<open>MsgBothGiven\<close>: the error line for group and period both given (line 80);
  \<^item> \<open>MsgNeitherGiven\<close>: the line asking for a group or a period (line 89);
  \<^item> \<open>MsgAverage m\<close>: the line reporting the average mass \<open>m\<close> (line 94; the
    rendering of \<open>m\<close> with two decimals is not modelled);
  \<^item> \<open>MsgNothingToCompute\<close>: the line saying no element matches the criterion (line 97).
\<close>

datatype message =
    MsgSearchResult
  | MsgNotFound
  | MsgBothGiven
  | MsgNeitherGiven
  | MsgAverage py_float
  | MsgNothingToCompute

text \<open>
  Python truthiness of an optional string: \<open>None\<close> and the empty string are false.
  It is what \<open>not element.get("Group")\<close>, \<open>if group\<close> and \<open>if period\<close> test.
\<close>

fun truthy :: "string option \<Rightarrow> bool" where
  "truthy None = False"
| "truthy (Some s) = (s \<noteq> [])"

section \<open>Group resolver\<close>

text \<open>
  The label returned when no group lists the symbol: the bytes of the UTF-8 text
  of line 64 (\<open>0xC3 0xA1\<close> is the letter a with an acute accent).
\<close>

definition unknown_group :: string where
  "unknown_group =
     ''Nezn'' @ [CHR 0xC3, CHR 0xA1] @ ''m'' @ [CHR 0xC3, CHR 0xA1] @ '' skupina''"

text \<open>\<open>find_group\<close> (lines 59-64): the loop over the table returns at the first hit.\<close>

fun find_group :: "group list \<Rightarrow> string \<Rightarrow> string" where
  "find_group [] symbol = unknown_group"
| "find_group (g # groups) symbol =
     (if symbol \<in> set (elements g) then cs g else find_group groups symbol)"

section \<open>Query engine\<close>

text \<open>
  \<open>search_element\<close> (lines 48-57). The result is the printed lines, the element
  collection after the call, and the returned value or the exception raised. The returned
  value is a dict in both outcomes: the matched element (the very object of the
  collection, so with its \<open>Group\<close> filled in), or the empty dict \<open>{}\<close>, here \<open>[]\<close>.
  The right-hand side of the assignment on line 54 is evaluated first, so a missing
  \<open>Symbol\<close> raises before anything is stored.
\<close>

fun search_element ::
  "element list \<Rightarrow> group list \<Rightarrow> string \<Rightarrow> string
     \<Rightarrow> message list \<times> element list \<times> (py_error + element)" where
  "search_element [] groups criterion val = ([MsgNotFound], [], Inr [])"
| "search_element (element # elems) groups criterion val =
     (if map_of element criterion = Some val then
        (if \<not> truthy (map_of element ''Group'') then
           (case map_of element ''Symbol'' of
              None \<Rightarrow> ([MsgSearchResult], element # elems, Inl (KeyError ''Symbol''))
            | Some symbol \<Rightarrow>
                (let element' = AList.update ''Group'' (find_group groups symbol) element
                 in ([MsgSearchResult], element' # elems, Inr element')))
         else ([MsgSearchResult], element # elems, Inr element))
      else
        (case search_element elems groups criterion val of
           (out, elems', r) \<Rightarrow> (out, element # elems', r)))"

text \<open>
  The list comprehensions of lines 85 and 87, which differ only in the field compared:
  \<open>[float(element["AtomicMass"]) for element in elements if element[field] == wanted]\<close>.
  Per element the condition is evaluated first (\<open>KeyError\<close> when the field is missing),
  then the mass is read and parsed; the first exception ends the comprehension.
  The builtin \<open>float\<close> is the parameter \<open>flt\<close>, from strings to floats: \<open>None\<close> is
  its \<open>ValueError\<close>.
  \<open>wanted\<close> is the argument as passed, so \<open>None\<close> equals no field value.
\<close>

fun collect_masses ::
  "(string \<Rightarrow> py_float option) \<Rightarrow> string \<Rightarrow> string option \<Rightarrow> element list
     \<Rightarrow> py_error + py_float list" where
  "collect_masses flt field wanted [] = Inr []"
| "collect_masses flt field wanted (element # elems) =
     (case map_of element field of
        None \<Rightarrow> Inl (KeyError field)
      | Some v \<Rightarrow>
          if Some v = wanted then
            (case map_of element ''AtomicMass'' of
               None \<Rightarrow> Inl (KeyError ''AtomicMass'')
             | Some m \<Rightarrow>
                 (case flt m of
                    None \<Rightarrow> Inl (ValueError m)
                  | Some x \<Rightarrow>
                      (case collect_masses flt field wanted elems of
                         Inl err \<Rightarrow> Inl err
                       | Inr xs \<Rightarrow> Inr (x # xs))))
          else collect_masses flt field wanted elems)"

text \<open>
  Lines 92-98: the mean of a non-empty list, or the nothing-to-compute line and 0.0.
  The imported \<open>mean\<close> of the \<open>statistics\<close> module is the parameter \<open>mean\<close>.
\<close>

definition report_average ::
  "(py_float list \<Rightarrow> py_error + py_float) \<Rightarrow> py_float list
     \<Rightarrow> message list \<times> (py_error + py_float)" where
  "report_average mean filtered_elements =
     (if filtered_elements \<noteq> [] then
        (case mean filtered_elements of
           Inl err \<Rightarrow> ([], Inl err)
         | Inr avg_mass \<Rightarrow> ([MsgAverage avg_mass], Inr avg_mass))
      else ([MsgNothingToCompute], Inr (Finite 0)))"

text \<open>
  \<open>calculate_average_mass\<close> (lines 77-98): the printed lines and the returned float
  or the exception raised. The function has no statement that assigns to the collection.
  The arguments \<open>group\<close> and \<open>period\<close> are \<open>None\<close> or a string; \<open>grp\<close> is \<open>group\<close>.
\<close>

definition calculate_average_mass ::
  "(string \<Rightarrow> py_float option) \<Rightarrow> (py_float list \<Rightarrow> py_error + py_float)
     \<Rightarrow> element list \<Rightarrow> string option \<Rightarrow> string option
     \<Rightarrow> message list \<times> (py_error + py_float)" where
  "calculate_average_mass flt mean elems grp period =
     (if truthy grp \<and> truthy period then ([MsgBothGiven], Inr (Finite 0))
      else if truthy grp then
        (case collect_masses flt ''Group'' grp elems of
           Inl err \<Rightarrow> ([], Inl err)
         | Inr filtered_elements \<Rightarrow> report_average mean filtered_elements)
      else if truthy period then
        (case collect_masses flt ''Period'' period elems of
           Inl err \<Rightarrow> ([], Inl err)
         | Inr filtered_elements \<Rightarrow> report_average mean filtered_elements)
      else ([MsgNeitherGiven], Inr (Finite 0)))"

section \<open>Python floats and \<open>statistics.mean\<close>\<close>

text \<open>
  The arithmetic of the standard library that \<open>calculate_average_mass\<close> relies on, for
  the theorems that put \<open>statistics.mean\<close> in the place of the parameter \<open>mean\<close>.
\<close>

text \<open>
  \<open>int.bit_length\<close>: the number of binary digits of a positive integer.
\<close>

function bit_length :: "int \<Rightarrow> int" where
  "bit_length n = (if n \<le> 0 then 0 else bit_length (n div 2) + 1)"
  by pat_completeness auto
termination
  by (relation "measure nat") auto

declare bit_length.simps [simp del]

text \<open>The power of two with an integer exponent.\<close>

definition pow2 :: "int \<Rightarrow> rat" where
  "pow2 k = (if 0 \<le> k then 2 ^ nat k else 1 / 2 ^ nat (- k))"

text \<open>
  The binary exponent of a positive rational \<open>x\<close>: the integer \<open>e\<close> with
  \<open>pow2 e \<le> x < pow2 (e + 1)\<close>. For \<open>x = p / q\<close> in lowest terms the difference of the
  bit lengths of \<open>p\<close> and \<open>q\<close> is \<open>e\<close> or \<open>e + 1\<close>, and the comparison decides.
\<close>

definition floor_log2 :: "rat \<Rightarrow> int" where
  "floor_log2 x =
     (case quotient_of x of
        (p, q) \<Rightarrow>
          let d = bit_length p - bit_length q
          in if pow2 d \<le> x then d else d - 1)"

text \<open>Rounding to the nearest integer, a tie going to the even one.\<close>

definition round_half_even :: "rat \<Rightarrow> int" where
  "round_half_even x =
     (let f = \<lfloor>x\<rfloor>; r = x - of_int f
      in if r < 1 / 2 then f
         else if 1 / 2 < r then f + 1
         else if even f then f else f + 1)"

text \<open>
  The binary64 number nearest to a rational, ties to even, with no bound on the exponent
  above. The significand has 53 bits, so a number of binary exponent \<open>e\<close> is rounded to
  a multiple of \<open>pow2 (e - 52)\<close>; below \<open>pow2 (- 1022)\<close> the numbers are subnormal,
  multiples of \<open>pow2 (- 1074)\<close>. This is the rounding of \<open>float\<close> on a decimal literal
  and of the true division of two integers.
\<close>

definition round_binary64 :: "rat \<Rightarrow> rat" where
  "round_binary64 x =
     (if x = 0 then 0
      else let e = max (floor_log2 \<bar>x\<bar>) (- 1022); q = pow2 (e - 52)
           in of_int (round_half_even (x / q)) * q)"

text \<open>The largest binary64 number.\<close>

definition binary64_max :: rat where
  "binary64_max = (2 ^ 53 - 1) * 2 ^ 971"

text \<open>
  \<open>float\<close> of a \<open>Fraction\<close>, which is the true division of its numerator by its
  denominator: the nearest binary64 number, or \<open>OverflowError\<close> when that is out of range.
\<close>

definition float_of_rat :: "rat \<Rightarrow> py_error + py_float" where
  "float_of_rat x =
     (let r = round_binary64 x
      in if binary64_max < \<bar>r\<bar> then Inl OverflowError else Inr (Finite r))"

text \<open>
  \<open>float.as_integer_ratio\<close> as \<open>statistics._exact_ratio\<close> uses it: the exact value of a
  finite float (0 for both zeros), nothing for an infinity or a NaN.
\<close>

fun exact_ratio :: "py_float \<Rightarrow> rat option" where
  "exact_ratio (Finite x) = Some x"
| "exact_ratio NegZero = Some 0"
| "exact_ratio PosInf = None"
| "exact_ratio NegInf = None"
| "exact_ratio NaN = None"

text \<open>
  Float addition where the right operand is an infinity or a NaN, as \<open>statistics._sum\<close>
  accumulates the non-finite data, starting from 0.
\<close>

fun add_nonfinite :: "py_float \<Rightarrow> py_float \<Rightarrow> py_float" where
  "add_nonfinite NaN y = NaN"
| "add_nonfinite x NaN = NaN"
| "add_nonfinite PosInf NegInf = NaN"
| "add_nonfinite NegInf PosInf = NaN"
| "add_nonfinite PosInf y = PosInf"
| "add_nonfinite NegInf y = NegInf"
| "add_nonfinite x y = y"

text \<open>
  \<open>statistics.mean\<close> on a list of floats, the function that line 3 of app.py imports
  under the name \<open>mean\<close>. It raises \<open>StatisticsError\<close> on no data.
  When all data are finite it adds them exactly, as fractions, divides by their number
  and converts the quotient to a float, so it rounds once. When some datum is an
  infinity or a NaN, the result is the float sum of those data (divided by the count,
  which leaves an infinity or a NaN as it is).
\<close>

definition statistics_mean :: "py_float list \<Rightarrow> py_error + py_float" where
  "statistics_mean data =
     (if data = [] then Inl StatisticsError
      else case those (map exact_ratio data) of
             Some ratios \<Rightarrow> float_of_rat (sum_list ratios / of_nat (length data))
           | None \<Rightarrow>
               Inr (foldl add_nonfinite (Finite 0) (filter (\<lambda>x. exact_ratio x = None) data)))"

section \<open>JSON export\<close>

text \<open>
  The input loop of \<open>export_to_json\<close> (lines 117-121). The first argument is what the
  user types, one string per call of \<open>input\<close>; reading past its end is \<open>EOFError\<close>.
  The loop ends at the first line that is empty after stripping. The string method
  \<open>str.strip\<close> is the parameter \<open>strip\<close>.
\<close>

fun read_symbols ::
  "(string \<Rightarrow> string) \<Rightarrow> string list \<Rightarrow> string list \<Rightarrow> py_error + string list" where
  "read_symbols strip [] selected_symbols = Inl EOFError"
| "read_symbols strip (line # lines) selected_symbols =
     (let symbol = strip line in
      if symbol = [] then Inr selected_symbols
      else read_symbols strip lines (selected_symbols @ [symbol]))"

text \<open>
  The list comprehension of line 124:
  \<open>[element for element in elements if element["Symbol"] in selected_symbols]\<close>.
\<close>

fun select_elements :: "string list \<Rightarrow> element list \<Rightarrow> py_error + element list" where
  "select_elements selected_symbols [] = Inr []"
| "select_elements selected_symbols (element # elems) =
     (case map_of element ''Symbol'' of
        None \<Rightarrow> Inl (KeyError ''Symbol'')
      | Some symbol \<Rightarrow>
          (case select_elements selected_symbols elems of
             Inl err \<Rightarrow> Inl err
           | Inr selected_elements \<Rightarrow>
               Inr (if symbol \<in> set selected_symbols then element # selected_elements
                    else selected_elements)))"

text \<open>
  \<open>export_to_json\<close> (lines 112-129): the value is the list handed to \<open>json.dump\<close>,
  which is the content of the written file, or the exception raised before the file is
  opened. The prompts, the confirmation line and the file system are not modelled.
\<close>

definition export_to_json ::
  "(string \<Rightarrow> string) \<Rightarrow> element list \<Rightarrow> string list \<Rightarrow> py_error + element list" where
  "export_to_json strip elems lines =
     (case read_symbols strip lines [] of
        Inl err \<Rightarrow> Inl err
      | Inr selected_symbols \<Rightarrow> select_elements selected_symbols elems)"

section \<open>Facts about the resolver and the search loop\<close>

lemma find_group_none:
  "(\<forall>g \<in> set groups. symbol \<notin> set (elements g)) \<Longrightarrow> find_group groups symbol = unknown_group"
  by (induction groups) auto

lemma find_group_first:
  "i < length groups \<Longrightarrow> symbol \<in> set (elements (groups ! i)) \<Longrightarrow>
   (\<forall>j < i. symbol \<notin> set (elements (groups ! j))) \<Longrightarrow>
   find_group groups symbol = cs (groups ! i)"
proof (induction groups arbitrary: i)
  case Nil
  then show ?case by simp
next
  case (Cons g groups)
  show ?case
  proof (cases i)
    case 0
    with Cons.prems show ?thesis by simp
  next
    case (Suc k)
    from Cons.prems Suc have "symbol \<notin> set (elements g)" by auto
    moreover from Cons.prems Suc have "find_group groups symbol = cs (groups ! k)"
      by (intro Cons.IH) auto
    ultimately show ?thesis using Suc by simp
  qed
qed

lemma unknown_group_nonempty: "unknown_group \<noteq> []"
  by (simp add: unknown_group_def)

lemma find_group_cases:
  "find_group groups symbol = unknown_group \<or>
   (\<exists>g \<in> set groups. symbol \<in> set (elements g) \<and> find_group groups symbol = cs g)"
  by (induction groups) auto

lemma search_element_none:
  "(\<forall>e \<in> set elems. map_of e criterion \<noteq> Some val) \<Longrightarrow>
   search_element elems groups criterion val = ([MsgNotFound], elems, Inr [])"
  by (induction elems) auto

lemma search_element_first:
  assumes "i < length elems" "map_of (elems ! i) criterion = Some val"
    "\<forall>j < i. map_of (elems ! j) criterion \<noteq> Some val"
  shows "search_element elems groups criterion val =
     (if truthy (map_of (elems ! i) ''Group'') then ([MsgSearchResult], elems, Inr (elems ! i))
      else case map_of (elems ! i) ''Symbol'' of
             None \<Rightarrow> ([MsgSearchResult], elems, Inl (KeyError ''Symbol''))
           | Some symbol \<Rightarrow>
               ([MsgSearchResult],
                elems[i := AList.update ''Group'' (find_group groups symbol) (elems ! i)],
                Inr (AList.update ''Group'' (find_group groups symbol) (elems ! i))))"
  using assms
proof (induction elems arbitrary: i)
  case Nil
  then show ?case by simp
next
  case (Cons e elems)
  show ?case
  proof (cases i)
    case 0
    with Cons.prems show ?thesis by (simp add: Let_def split: option.splits)
  next
    case (Suc k)
    from Cons.prems Suc have nomatch: "map_of e criterion \<noteq> Some val" by auto
    from Cons.prems Suc have k: "k < length elems" "map_of (elems ! k) criterion = Some val"
      "\<forall>j < k. map_of (elems ! j) criterion \<noteq> Some val" by auto
    show ?thesis using nomatch Suc Cons.IH[OF k]
      by (simp split: option.splits)
  qed
qed

text \<open>Every collection either has no match or a first match.\<close>

lemma first_match_exists:
  "(\<exists>e \<in> set elems. P e) \<Longrightarrow>
   \<exists>i < length elems. P (elems ! i) \<and> (\<forall>j < i. \<not> P (elems ! j))"
proof (induction elems)
  case Nil
  then show ?case by simp
next
  case (Cons e elems)
  show ?case
  proof (cases "P e")
    case True
    then have "0 < length (e # elems) \<and> P ((e # elems) ! 0) \<and> (\<forall>j < 0. \<not> P ((e # elems) ! j))"
      by simp
    then show ?thesis by blast
  next
    case False
    with Cons.prems have "\<exists>x \<in> set elems. P x" by auto
    from Cons.IH[OF this] obtain i where i: "i < length elems" "P (elems ! i)"
      "\<forall>j < i. \<not> P (elems ! j)" by blast
    have "\<forall>j < Suc i. \<not> P ((e # elems) ! j)"
    proof (intro allI impI)
      fix j assume "j < Suc i"
      then show "\<not> P ((e # elems) ! j)" using False i(3) by (cases j) auto
    qed
    with i have "Suc i < length (e # elems) \<and> P ((e # elems) ! Suc i) \<and>
      (\<forall>j < Suc i. \<not> P ((e # elems) ! j))" by simp
    then show ?thesis by blast
  qed
qed

lemma find_group_empty_iff:
  "find_group groups symbol = [] \<longleftrightarrow>
   (\<exists>k < length groups.
      symbol \<in> set (elements (groups ! k)) \<and>
      (\<forall>j < k. symbol \<notin> set (elements (groups ! j))) \<and> cs (groups ! k) = [])"
proof
  assume empty: "find_group groups symbol = []"
  have "\<exists>g \<in> set groups. symbol \<in> set (elements g)"
  proof (rule ccontr)
    assume "\<not> (\<exists>g \<in> set groups. symbol \<in> set (elements g))"
    then have "find_group groups symbol = unknown_group"
      by (intro find_group_none) blast
    with empty unknown_group_nonempty show False by simp
  qed
  from first_match_exists [of groups "\<lambda>g. symbol \<in> set (elements g)", OF this]
  obtain k where k: "k < length groups" "symbol \<in> set (elements (groups ! k))"
    "\<forall>j < k. symbol \<notin> set (elements (groups ! j))" by blast
  from find_group_first [OF k] empty have "cs (groups ! k) = []" by simp
  with k show "\<exists>k < length groups.
      symbol \<in> set (elements (groups ! k)) \<and>
      (\<forall>j < k. symbol \<notin> set (elements (groups ! j))) \<and> cs (groups ! k) = []"
    by blast
next
  assume "\<exists>k < length groups.
      symbol \<in> set (elements (groups ! k)) \<and>
      (\<forall>j < k. symbol \<notin> set (elements (groups ! j))) \<and> cs (groups ! k) = []"
  then obtain k where k: "k < length groups" "symbol \<in> set (elements (groups ! k))"
    "\<forall>j < k. symbol \<notin> set (elements (groups ! j))" and "cs (groups ! k) = []" by blast
  with find_group_first [OF k] show "find_group groups symbol = []" by simp
qed

section \<open>The group resolver returns the first match\<close>

text \<open>
  Claim C3. For every group table and symbol, \<open>find_group\<close> returns the \<open>cs\<close> label
  of the first group, in table order, whose \<open>elements\<close> list contains the symbol, so with
  overlapping member lists the earliest group wins; when no group contains the symbol it
  returns the unknown-group label. The result is a function of the table and the symbol
  alone, and the table is only read.
\<close>

theorem find_group_first_match:
  "((\<forall>g \<in> set groups. symbol \<notin> set (elements g)) \<longrightarrow>
      find_group groups symbol = unknown_group) \<and>
   (\<forall>i < length groups.
      symbol \<in> set (elements (groups ! i)) \<and>
      (\<forall>j < i. symbol \<notin> set (elements (groups ! j))) \<longrightarrow>
      find_group groups symbol = cs (groups ! i))"
  using find_group_none find_group_first by blast

theorem find_group_first_match_witness:
  "find_group [\<lparr>cs = ''A'', elements = [''Li'']\<rparr>, \<lparr>cs = ''B'', elements = [''H'', ''He'']\<rparr>,
               \<lparr>cs = ''C'', elements = [''He'']\<rparr>] ''He'' = ''B'' \<and>
   find_group [\<lparr>cs = ''A'', elements = [''Li'']\<rparr>] ''He'' = unknown_group"
proof -
  let ?G = "[\<lparr>cs = ''A'', elements = [''Li'']\<rparr>, \<lparr>cs = ''B'', elements = [''H'', ''He'']\<rparr>,
             \<lparr>cs = ''C'', elements = [''He'']\<rparr>]"
  have "(1::nat) < length ?G \<and> ''He'' \<in> set (elements (?G ! 1)) \<and>
        (\<forall>j < (1::nat). ''He'' \<notin> set (elements (?G ! j)))"
    by simp
  with find_group_first_match [of ?G "''He''"] have "find_group ?G ''He'' = cs (?G ! 1)"
    by blast
  moreover have "\<forall>g \<in> set [\<lparr>cs = ''A'', elements = [''Li'']\<rparr>]. ''He'' \<notin> set (elements g)"
    by simp
  with find_group_first_match [of "[\<lparr>cs = ''A'', elements = [''Li'']\<rparr>]" "''He''"]
  have "find_group [\<lparr>cs = ''A'', elements = [''Li'']\<rparr>] ''He'' = unknown_group"
    by blast
  ultimately show ?thesis by simp
qed

section \<open>Searching\<close>

lemma search_element_found:
  assumes "\<exists>e \<in> set elems. map_of e criterion = Some val"
  shows "fst (search_element elems groups criterion val) = [MsgSearchResult] \<and>
         (case snd (snd (search_element elems groups criterion val)) of
            Inl err \<Rightarrow> err = KeyError ''Symbol''
          | Inr r \<Rightarrow> criterion \<in> dom (map_of r))"
proof -
  from first_match_exists [of elems "\<lambda>e. map_of e criterion = Some val", OF assms]
  obtain i where i: "i < length elems" "map_of (elems ! i) criterion = Some val"
    "\<forall>j < i. map_of (elems ! j) criterion \<noteq> Some val" by blast
  show ?thesis
    unfolding search_element_first [OF i]
    using i(2) by (auto simp: update_conv' split: option.splits)
qed

lemma search_element_skip:
  "fst (search_element elems groups criterion val) =
     fst (search_element (filter (\<lambda>e. map_of e criterion \<noteq> None) elems) groups criterion val) \<and>
   snd (snd (search_element elems groups criterion val)) =
     snd (snd (search_element (filter (\<lambda>e. map_of e criterion \<noteq> None) elems) groups criterion val))"
  by (induction elems) (auto simp: Let_def split: option.splits prod.splits)

text \<open>
  Claim C9. \<open>search_element\<close> reads the criterion field with \<open>dict.get\<close>, so an
  element without that field is skipped and never makes the call fail: when no element has
  the criterion field the call ends normally with the not-found result (the not-found line
  is printed, the collection is unchanged, the empty dict is returned); in general the
  printed lines and the returned value are those of the search over the elements that do
  have the field.
\<close>

theorem search_element_absent_criterion:
  "((\<forall>e \<in> set elems. map_of e criterion = None) \<longrightarrow>
      search_element elems groups criterion val = ([MsgNotFound], elems, Inr [])) \<and>
   fst (search_element elems groups criterion val) =
     fst (search_element (filter (\<lambda>e. map_of e criterion \<noteq> None) elems) groups criterion val) \<and>
   snd (snd (search_element elems groups criterion val)) =
     snd (snd (search_element (filter (\<lambda>e. map_of e criterion \<noteq> None) elems) groups criterion val))"
proof -
  have "search_element elems groups criterion val = ([MsgNotFound], elems, Inr [])"
    if "\<forall>e \<in> set elems. map_of e criterion = None"
    using that by (intro search_element_none) simp
  then show ?thesis using search_element_skip by blast
qed

theorem search_element_absent_criterion_witness:
  "search_element [[(''Symbol'', ''H''), (''Element'', ''Hydrogen'')], [], [(''Symbol'', ''He'')]]
     [] ''Colour'' ''red'' =
   ([MsgNotFound], [[(''Symbol'', ''H''), (''Element'', ''Hydrogen'')], [], [(''Symbol'', ''He'')]],
    Inr [])"
proof -
  let ?E = "[[(''Symbol'', ''H''), (''Element'', ''Hydrogen'')], [], [(''Symbol'', ''He'')]]"
  have "\<forall>e \<in> set ?E. map_of e ''Colour'' = None" by simp
  with search_element_absent_criterion [of ?E "''Colour''" "[]" "''red''"]
  show ?thesis by blast
qed

text \<open>
  Claim C5 says that the not-found value of \<open>search_element\<close> is an explicit signal
  and not an empty record. In the code it is the empty dict \<open>{}\<close>, the record with no
  fields: here at a search for a symbol that no element has.
\<close>

theorem search_element_not_found_counterexample:
  "snd (snd (search_element [[(''Symbol'', ''He'')]] [] ''Symbol'' ''H'')) = Inr [] \<and>
   dom (map_of ([] :: element)) = {}"
  by simp

text \<open>
  Claim C5, as the code has it. With no matching element \<open>search_element\<close> prints the
  not-found line, leaves the collection unchanged and returns the empty dict \<open>{}\<close>.
  The empty dict is unambiguous as a not-found signal: when some element matches, the
  banner line is printed instead, and the value returned is never the empty dict, since a
  returned element has the criterion field.
\<close>

theorem search_element_not_found:
  "((\<forall>e \<in> set elems. map_of e criterion \<noteq> Some val) \<longrightarrow>
      search_element elems groups criterion val = ([MsgNotFound], elems, Inr [])) \<and>
   ((\<exists>e \<in> set elems. map_of e criterion = Some val) \<longrightarrow>
      fst (search_element elems groups criterion val) = [MsgSearchResult] \<and>
      snd (snd (search_element elems groups criterion val)) \<noteq> Inr [] \<and>
      (\<forall>r. snd (snd (search_element elems groups criterion val)) = Inr r \<longrightarrow>
           criterion \<in> dom (map_of r)))"
proof -
  have "snd (snd (search_element elems groups criterion val)) \<noteq> Inr [] \<and>
      fst (search_element elems groups criterion val) = [MsgSearchResult] \<and>
      (\<forall>r. snd (snd (search_element elems groups criterion val)) = Inr r \<longrightarrow>
           criterion \<in> dom (map_of r))"
    if "\<exists>e \<in> set elems. map_of e criterion = Some val"
    using search_element_found [OF that, of groups] by (auto split: sum.splits)
  then show ?thesis using search_element_none by blast
qed

theorem search_element_not_found_witness:
  "search_element [[(''Symbol'', ''H'')], [(''Symbol'', ''He'')]] [] ''Symbol'' ''Li'' =
     ([MsgNotFound], [[(''Symbol'', ''H'')], [(''Symbol'', ''He'')]], Inr []) \<and>
   snd (snd (search_element [[(''Symbol'', ''H'')], [(''Symbol'', ''He'')]] [] ''Symbol'' ''He''))
     \<noteq> Inr []"
proof -
  let ?E = "[[(''Symbol'', ''H'')], [(''Symbol'', ''He'')]]"
  have "\<forall>e \<in> set ?E. map_of e ''Symbol'' \<noteq> Some ''Li''" by simp
  moreover have "\<exists>e \<in> set ?E. map_of e ''Symbol'' = Some ''He''" by simp
  ultimately show ?thesis
    using search_element_not_found [of ?E "''Symbol''" "''Li''" "[]"]
      search_element_not_found [of ?E "''Symbol''" "''He''" "[]"]
    by blast
qed

text \<open>
  Claim C2 says that for every element collection \<open>search_element\<close> returns the first
  element whose criterion field is the value. When that element has neither a non-empty
  \<open>Group\<close> nor a \<open>Symbol\<close>, line 54 raises \<open>KeyError\<close> after the banner is printed,
  and nothing is returned.
\<close>

theorem search_element_first_exact_match_counterexample:
  "search_element [[(''AtomicNumber'', ''8''), (''Element'', ''Oxygen'')]] []
     ''AtomicNumber'' ''8'' =
   ([MsgSearchResult], [[(''AtomicNumber'', ''8''), (''Element'', ''Oxygen'')]],
    Inl (KeyError ''Symbol''))"
  by simp

text \<open>
  Claim C2, as the code has it. \<open>search_element\<close> selects the first element, in
  collection order, whose criterion field equals the value as a string, exactly:
  \<^item> an element it returns stands in the collection at the first index whose criterion
    field is the value, and has all the fields of the stored element (only \<open>Group\<close> may
    have been filled in);
  \<^item> when the element at that first index has a non-empty \<open>Group\<close> or a \<open>Symbol\<close>,
    it is returned;
  \<^item> when it has neither, the call raises \<open>KeyError\<close> for \<open>Symbol\<close> and leaves the
    collection as it is;
  \<^item> when no element matches, the empty dict is returned;
  \<^item> searching \<open>AtomicNumber\<close> for \<open>8\<close> never returns an element whose
    \<open>AtomicNumber\<close> is \<open>08\<close>.
\<close>

theorem search_element_first_exact_match:
  "(\<forall>r. snd (snd (search_element elems groups criterion val)) = Inr r \<and> r \<noteq> [] \<longrightarrow>
      (\<exists>i < length elems.
         map_of (elems ! i) criterion = Some val \<and>
         (\<forall>j < i. map_of (elems ! j) criterion \<noteq> Some val) \<and>
         r = fst (snd (search_element elems groups criterion val)) ! i \<and>
         (\<forall>k. k \<noteq> ''Group'' \<longrightarrow> map_of r k = map_of (elems ! i) k))) \<and>
   (\<forall>i < length elems.
      map_of (elems ! i) criterion = Some val \<and>
      (\<forall>j < i. map_of (elems ! j) criterion \<noteq> Some val) \<and>
      (truthy (map_of (elems ! i) ''Group'') \<or> map_of (elems ! i) ''Symbol'' \<noteq> None) \<longrightarrow>
      (\<exists>r. snd (snd (search_element elems groups criterion val)) = Inr r \<and> r \<noteq> [] \<and>
           r = fst (snd (search_element elems groups criterion val)) ! i \<and>
           (\<forall>k. k \<noteq> ''Group'' \<longrightarrow> map_of r k = map_of (elems ! i) k))) \<and>
   (\<forall>i < length elems.
      map_of (elems ! i) criterion = Some val \<and>
      (\<forall>j < i. map_of (elems ! j) criterion \<noteq> Some val) \<and>
      \<not> truthy (map_of (elems ! i) ''Group'') \<and> map_of (elems ! i) ''Symbol'' = None \<longrightarrow>
      search_element elems groups criterion val =
        ([MsgSearchResult], elems, Inl (KeyError ''Symbol''))) \<and>
   ((\<forall>e \<in> set elems. map_of e criterion \<noteq> Some val) \<longrightarrow>
      snd (snd (search_element elems groups criterion val)) = Inr []) \<and>
   (\<forall>r. snd (snd (search_element elems groups ''AtomicNumber'' ''8'')) = Inr r \<longrightarrow>
      map_of r ''AtomicNumber'' \<noteq> Some ''08'')"
proof -
  have raises: "search_element elems groups criterion val =
        ([MsgSearchResult], elems, Inl (KeyError ''Symbol''))"
    if "i < length elems" "map_of (elems ! i) criterion = Some val"
      "\<forall>j < i. map_of (elems ! j) criterion \<noteq> Some val"
      "\<not> truthy (map_of (elems ! i) ''Group'')" "map_of (elems ! i) ''Symbol'' = None" for i
    unfolding search_element_first [OF that(1-3)]
    using that(4,5) by simp
  have at: "snd (snd (search_element elems groups c v)) = Inr r \<Longrightarrow>
      r \<noteq> [] \<and> r = fst (snd (search_element elems groups c v)) ! i \<and>
      (\<forall>k. k \<noteq> ''Group'' \<longrightarrow> map_of r k = map_of (elems ! i) k)"
    if "i < length elems" "map_of (elems ! i) c = Some v"
      "\<forall>j < i. map_of (elems ! j) c \<noteq> Some v" for i c v r
    unfolding search_element_first [OF that]
    using that(1,2) by (auto simp: update_conv' split: if_splits option.splits)
  have ret: "\<exists>r. snd (snd (search_element elems groups c v)) = Inr r"
    if "i < length elems" "map_of (elems ! i) c = Some v"
      "\<forall>j < i. map_of (elems ! j) c \<noteq> Some v"
      "truthy (map_of (elems ! i) ''Group'') \<or> map_of (elems ! i) ''Symbol'' \<noteq> None" for i c v
    unfolding search_element_first [OF that(1-3)]
    using that(4) by (auto split: option.splits)
  have sound: "\<exists>i < length elems.
         map_of (elems ! i) c = Some v \<and>
         (\<forall>j < i. map_of (elems ! j) c \<noteq> Some v) \<and>
         r = fst (snd (search_element elems groups c v)) ! i \<and>
         (\<forall>k. k \<noteq> ''Group'' \<longrightarrow> map_of r k = map_of (elems ! i) k)"
    if r: "snd (snd (search_element elems groups c v)) = Inr r" "r \<noteq> []" for r c v
  proof -
    have "\<exists>e \<in> set elems. map_of e c = Some v"
    proof (rule ccontr)
      assume "\<not> (\<exists>e \<in> set elems. map_of e c = Some v)"
      then have "search_element elems groups c v = ([MsgNotFound], elems, Inr [])"
        by (intro search_element_none) blast
      with r show False by simp
    qed
    from first_match_exists [of elems "\<lambda>e. map_of e c = Some v", OF this]
    obtain i where i: "i < length elems" "map_of (elems ! i) c = Some v"
      "\<forall>j < i. map_of (elems ! j) c \<noteq> Some v" by blast
    from at [OF i r(1)] i show ?thesis by blast
  qed
  have complete: "\<exists>r. snd (snd (search_element elems groups criterion val)) = Inr r \<and> r \<noteq> [] \<and>
           r = fst (snd (search_element elems groups criterion val)) ! i \<and>
           (\<forall>k. k \<noteq> ''Group'' \<longrightarrow> map_of r k = map_of (elems ! i) k)"
    if "i < length elems" "map_of (elems ! i) criterion = Some val"
      "\<forall>j < i. map_of (elems ! j) criterion \<noteq> Some val"
      "truthy (map_of (elems ! i) ''Group'') \<or> map_of (elems ! i) ''Symbol'' \<noteq> None" for i
    using ret [OF that] at [OF that(1-3)] by blast
  have none: "snd (snd (search_element elems groups criterion val)) = Inr []"
    if "\<forall>e \<in> set elems. map_of e criterion \<noteq> Some val"
    using search_element_none [OF that] by simp
  have ex: "map_of r ''AtomicNumber'' \<noteq> Some ''08''"
    if r: "snd (snd (search_element elems groups ''AtomicNumber'' ''8'')) = Inr r" for r
  proof (cases "r = []")
    case True
    then show ?thesis by simp
  next
    case False
    from sound [OF r False] obtain i where
      "map_of (elems ! i) ''AtomicNumber'' = Some ''8''"
      "\<forall>k. k \<noteq> ''Group'' \<longrightarrow> map_of r k = map_of (elems ! i) k" by blast
    then have "map_of r ''AtomicNumber'' = Some ''8''" by simp
    then show ?thesis by simp
  qed
  show ?thesis
    apply (intro conjI allI impI)
    subgoal for r using sound by blast
    subgoal for i using complete by blast
    subgoal for i using raises by blast
    subgoal using none by blast
    subgoal for r using ex by blast
    done
qed

theorem search_element_first_exact_match_witness:
  "snd (snd (search_element
      [[(''Symbol'', ''N''), (''AtomicNumber'', ''7'')],
       [(''Symbol'', ''Oa''), (''AtomicNumber'', ''08'')],
       [(''Symbol'', ''O''), (''AtomicNumber'', ''8''), (''Group'', ''16'')],
       [(''Symbol'', ''Ob''), (''AtomicNumber'', ''8''), (''Group'', ''16'')]]
      [] ''AtomicNumber'' ''8'')) =
   Inr [(''Symbol'', ''O''), (''AtomicNumber'', ''8''), (''Group'', ''16'')] \<and>
   snd (snd (search_element [[(''Symbol'', ''Oa''), (''AtomicNumber'', ''08'')]]
      [] ''AtomicNumber'' ''8'')) = Inr []"
proof -
  let ?E = "[[(''Symbol'', ''N''), (''AtomicNumber'', ''7'')],
       [(''Symbol'', ''Oa''), (''AtomicNumber'', ''08'')],
       [(''Symbol'', ''O''), (''AtomicNumber'', ''8''), (''Group'', ''16'')],
       [(''Symbol'', ''Ob''), (''AtomicNumber'', ''8''), (''Group'', ''16'')]]"
  let ?F = "[[(''Symbol'', ''Oa''), (''AtomicNumber'', ''08'')]]"
  have j: "\<forall>j < (2::nat). map_of (?E ! j) ''AtomicNumber'' \<noteq> Some ''8''"
  proof (intro allI impI)
    fix j :: nat assume "j < 2"
    then have "j = 0 \<or> j = 1" by auto
    then show "map_of (?E ! j) ''AtomicNumber'' \<noteq> Some ''8''" by auto
  qed
  have "(2::nat) < length ?E \<and> map_of (?E ! 2) ''AtomicNumber'' = Some ''8'' \<and>
      (truthy (map_of (?E ! 2) ''Group'') \<or> map_of (?E ! 2) ''Symbol'' \<noteq> None)"
    by simp
  with j search_element_first_exact_match [of ?E "[]" "''AtomicNumber''" "''8''"]
  obtain r where r: "snd (snd (search_element ?E [] ''AtomicNumber'' ''8'')) = Inr r"
    "r = fst (snd (search_element ?E [] ''AtomicNumber'' ''8'')) ! 2"
    by blast
  have "fst (snd (search_element ?E [] ''AtomicNumber'' ''8'')) ! 2 =
      [(''Symbol'', ''O''), (''AtomicNumber'', ''8''), (''Group'', ''16'')]"
    by simp
  with r have one: "snd (snd (search_element ?E [] ''AtomicNumber'' ''8'')) =
      Inr [(''Symbol'', ''O''), (''AtomicNumber'', ''8''), (''Group'', ''16'')]"
    by simp
  have "\<forall>e \<in> set ?F. map_of e ''AtomicNumber'' \<noteq> Some ''8''" by simp
  with search_element_first_exact_match [of ?F "[]" "''AtomicNumber''" "''8''"]
  have "snd (snd (search_element ?F [] ''AtomicNumber'' ''8'')) = Inr []" by blast
  with one show ?thesis by blast
qed

section \<open>The cached group of a found element\<close>

lemma search_element_frame:
  "length (fst (snd (search_element elems groups criterion val))) = length elems \<and>
   (\<forall>j < length elems. \<forall>k.
      map_of (fst (snd (search_element elems groups criterion val)) ! j) k \<noteq> map_of (elems ! j) k \<longrightarrow>
      k = ''Group'' \<and>
      map_of (elems ! j) criterion = Some val \<and>
      (\<forall>i < j. map_of (elems ! i) criterion \<noteq> Some val) \<and>
      \<not> truthy (map_of (elems ! j) ''Group'') \<and>
      (\<exists>symbol. map_of (elems ! j) ''Symbol'' = Some symbol \<and>
         map_of (fst (snd (search_element elems groups criterion val)) ! j) ''Group'' =
           Some (find_group groups symbol)))"
proof (cases "\<exists>e \<in> set elems. map_of e criterion = Some val")
  case False
  then have "search_element elems groups criterion val = ([MsgNotFound], elems, Inr [])"
    by (intro search_element_none) blast
  then show ?thesis by simp
next
  case True
  from first_match_exists [of elems "\<lambda>e. map_of e criterion = Some val", OF this]
  obtain i where i: "i < length elems" "map_of (elems ! i) criterion = Some val"
    "\<forall>j < i. map_of (elems ! j) criterion \<noteq> Some val" by blast
  show ?thesis
    unfolding search_element_first [OF i]
    using i by (auto simp: update_conv' nth_list_update split: option.splits if_splits)
qed

lemma search_element_cached:
  assumes "i < length elems" "map_of (elems ! i) criterion = Some val"
    "\<forall>j < i. map_of (elems ! j) criterion \<noteq> Some val"
    "truthy (map_of (elems ! i) ''Group'')"
  shows "search_element elems groups criterion val = ([MsgSearchResult], elems, Inr (elems ! i))"
  unfolding search_element_first [OF assms(1-3)] using assms(4) by simp

text \<open>
  Claim C6 says that a second search matching the same element does not call the
  resolver again and leaves the cached \<open>Group\<close> unchanged. The cache is tested by
  truthiness (line 53), so an empty label is not kept: with a group whose \<open>cs\<close> is the
  empty string the first search stores \<open>Group = ""\<close>, and the second search, with the
  table changed in between, resolves again and overwrites it.
\<close>

theorem search_element_cache_counterexample:
  "search_element [[(''Symbol'', ''H'')]] [\<lparr>cs = '''', elements = [''H'']\<rparr>] ''Symbol'' ''H'' =
     ([MsgSearchResult], [[(''Symbol'', ''H''), (''Group'', '''')]],
      Inr [(''Symbol'', ''H''), (''Group'', '''')]) \<and>
   search_element [[(''Symbol'', ''H''), (''Group'', '''')]]
     [\<lparr>cs = ''Nonmetals'', elements = [''H'']\<rparr>] ''Symbol'' ''H'' =
     ([MsgSearchResult], [[(''Symbol'', ''H''), (''Group'', ''Nonmetals'')]],
      Inr [(''Symbol'', ''H''), (''Group'', ''Nonmetals'')])"
  by (simp add: Let_def)

text \<open>
  Claim C6, as the code has it. One call of \<open>search_element\<close> keeps the length of the
  collection and changes at most one field: the \<open>Group\<close> of the first matching element,
  only when that field was absent or empty, to \<open>find_group\<close> of the element's
  \<open>Symbol\<close>; every other field of every element is as before. When the value returned
  by a first search has a non-empty \<open>Group\<close>, a second search whose first match is the
  same element returns the same element and leaves the collection as it is, whatever the
  group table is by then: the resolver's result is not used.
\<close>

theorem search_element_group_cache:
  "length (fst (snd (search_element elems groups criterion val))) = length elems \<and>
   (\<forall>j < length elems. \<forall>k.
      map_of (fst (snd (search_element elems groups criterion val)) ! j) k \<noteq> map_of (elems ! j) k \<longrightarrow>
      k = ''Group'' \<and>
      map_of (elems ! j) criterion = Some val \<and>
      (\<forall>i < j. map_of (elems ! i) criterion \<noteq> Some val) \<and>
      \<not> truthy (map_of (elems ! j) ''Group'') \<and>
      (\<exists>symbol. map_of (elems ! j) ''Symbol'' = Some symbol \<and>
         map_of (fst (snd (search_element elems groups criterion val)) ! j) ''Group'' =
           Some (find_group groups symbol))) \<and>
   (\<forall>i out elems' r criterion2 val2 groups2.
      i < length elems \<and> map_of (elems ! i) criterion = Some val \<and>
      (\<forall>j < i. map_of (elems ! j) criterion \<noteq> Some val) \<and>
      search_element elems groups criterion val = (out, elems', Inr r) \<and>
      map_of r ''Group'' \<noteq> Some [] \<and>
      map_of (elems' ! i) criterion2 = Some val2 \<and>
      (\<forall>j < i. map_of (elems' ! j) criterion2 \<noteq> Some val2) \<longrightarrow>
      search_element elems' groups2 criterion2 val2 = ([MsgSearchResult], elems', Inr r))"
proof -
  have second: "search_element elems' groups2 criterion2 val2 = ([MsgSearchResult], elems', Inr r)"
    if i: "i < length elems" "map_of (elems ! i) criterion = Some val"
      "\<forall>j < i. map_of (elems ! j) criterion \<noteq> Some val"
      and first: "search_element elems groups criterion val = (out, elems', Inr r)"
      and cached: "map_of r ''Group'' \<noteq> Some []"
      and i2: "map_of (elems' ! i) criterion2 = Some val2"
      "\<forall>j < i. map_of (elems' ! j) criterion2 \<noteq> Some val2"
    for i out elems' r criterion2 val2 groups2
  proof -
    from first cached
    have "length elems' = length elems \<and> r = elems' ! i \<and> truthy (map_of r ''Group'')"
      unfolding search_element_first [OF i]
      using i(1) by (auto simp: update_conv' split: if_splits option.splits)
    then have "i < length elems'" "r = elems' ! i" "truthy (map_of (elems' ! i) ''Group'')"
      using i(1) by auto
    with search_element_cached [of i elems' criterion2 val2 groups2] i2
    show ?thesis by simp
  qed
  show ?thesis
    apply (intro conjI)
    subgoal using search_element_frame by blast
    subgoal using search_element_frame by blast
    subgoal using second by blast
    done
qed

theorem search_element_group_cache_witness:
  "search_element [[(''Symbol'', ''H'')], [(''Symbol'', ''He''), (''Group'', ''18'')]]
     [\<lparr>cs = ''Nonmetals'', elements = [''H'']\<rparr>] ''Symbol'' ''H'' =
     ([MsgSearchResult],
      [[(''Symbol'', ''H''), (''Group'', ''Nonmetals'')], [(''Symbol'', ''He''), (''Group'', ''18'')]],
      Inr [(''Symbol'', ''H''), (''Group'', ''Nonmetals'')]) \<and>
   search_element
     [[(''Symbol'', ''H''), (''Group'', ''Nonmetals'')], [(''Symbol'', ''He''), (''Group'', ''18'')]]
     [\<lparr>cs = ''Halogens'', elements = [''H'']\<rparr>] ''Group'' ''Nonmetals'' =
     ([MsgSearchResult],
      [[(''Symbol'', ''H''), (''Group'', ''Nonmetals'')], [(''Symbol'', ''He''), (''Group'', ''18'')]],
      Inr [(''Symbol'', ''H''), (''Group'', ''Nonmetals'')])"
proof -
  let ?E = "[[(''Symbol'', ''H'')], [(''Symbol'', ''He''), (''Group'', ''18'')]]"
  let ?E' = "[[(''Symbol'', ''H''), (''Group'', ''Nonmetals'')],
              [(''Symbol'', ''He''), (''Group'', ''18'')]]"
  let ?r = "[(''Symbol'', ''H''), (''Group'', ''Nonmetals'')]"
  let ?G = "[\<lparr>cs = ''Nonmetals'', elements = [''H'']\<rparr>]"
  let ?G2 = "[\<lparr>cs = ''Halogens'', elements = [''H'']\<rparr>]"
  have first: "search_element ?E ?G ''Symbol'' ''H'' = ([MsgSearchResult], ?E', Inr ?r)"
    by (simp add: Let_def)
  have "(0::nat) < length ?E \<and> map_of (?E ! 0) ''Symbol'' = Some ''H'' \<and>
      (\<forall>j < (0::nat). map_of (?E ! j) ''Symbol'' \<noteq> Some ''H'') \<and>
      map_of ?r ''Group'' \<noteq> Some [] \<and>
      map_of (?E' ! 0) ''Group'' = Some ''Nonmetals'' \<and>
      (\<forall>j < (0::nat). map_of (?E' ! j) ''Group'' \<noteq> Some ''Nonmetals'')"
    by simp
  with first search_element_group_cache [of ?E ?G "''Symbol''" "''H''"]
  have "search_element ?E' ?G2 ''Group'' ''Nonmetals'' = ([MsgSearchResult], ?E', Inr ?r)"
    by blast
  with first show ?thesis by blast
qed

text \<open>
  Claim C10 says that the \<open>Group\<close> field of a found element is non-empty afterwards.
  When the first group listing the symbol has the empty string as its \<open>cs\<close> label, the
  field is filled with that empty label.
\<close>

theorem search_element_group_populated_counterexample:
  "snd (snd (search_element [[(''Symbol'', ''H''), (''Group'', '''')]]
      [\<lparr>cs = '''', elements = [''H'']\<rparr>] ''Symbol'' ''H'')) =
     Inr [(''Symbol'', ''H''), (''Group'', '''')] \<and>
   map_of [(''Symbol'', ''H''), (''Group'', '''')] ''Group'' = Some ''''"
  by (simp add: Let_def)

text \<open>
  Claim C10, as the code has it. When the first matching element has a \<open>Symbol\<close>,
  \<open>search_element\<close> returns it with a \<open>Group\<close> field that is present and is the value
  it had (a non-empty one), the \<open>cs\<close> label of a group listing the symbol, or the
  unknown-group label. The field is empty afterwards in one case only: it was absent or
  empty before, and the first group of the table that lists the symbol has the empty
  string as its \<open>cs\<close> label. In every other case it is non-empty.
\<close>

theorem search_element_group_populated:
  "\<forall>i < length elems. \<forall>symbol.
     map_of (elems ! i) criterion = Some val \<and>
     (\<forall>j < i. map_of (elems ! j) criterion \<noteq> Some val) \<and>
     map_of (elems ! i) ''Symbol'' = Some symbol \<longrightarrow>
     (\<exists>r v.
        search_element elems groups criterion val = ([MsgSearchResult], elems[i := r], Inr r) \<and>
        map_of r ''Group'' = Some v \<and>
        (truthy (map_of (elems ! i) ''Group'') \<and> map_of (elems ! i) ''Group'' = Some v \<or>
         (\<exists>g \<in> set groups. symbol \<in> set (elements g) \<and> v = cs g) \<or>
         v = unknown_group) \<and>
        (v = [] \<longleftrightarrow>
           \<not> truthy (map_of (elems ! i) ''Group'') \<and>
           (\<exists>k < length groups.
              symbol \<in> set (elements (groups ! k)) \<and>
              (\<forall>j < k. symbol \<notin> set (elements (groups ! j))) \<and> cs (groups ! k) = [])))"
proof (intro allI impI)
  fix i symbol
  assume len: "i < length elems"
    and "map_of (elems ! i) criterion = Some val \<and>
     (\<forall>j < i. map_of (elems ! j) criterion \<noteq> Some val) \<and>
     map_of (elems ! i) ''Symbol'' = Some symbol"
  then have i: "map_of (elems ! i) criterion = Some val"
    "\<forall>j < i. map_of (elems ! j) criterion \<noteq> Some val"
    and sym: "map_of (elems ! i) ''Symbol'' = Some symbol" by auto
  let ?first_empty = "\<exists>k < length groups.
              symbol \<in> set (elements (groups ! k)) \<and>
              (\<forall>j < k. symbol \<notin> set (elements (groups ! j))) \<and> cs (groups ! k) = []"
  let ?P = "\<lambda>r v. search_element elems groups criterion val = ([MsgSearchResult], elems[i := r], Inr r) \<and>
        map_of r ''Group'' = Some v \<and>
        (truthy (map_of (elems ! i) ''Group'') \<and> map_of (elems ! i) ''Group'' = Some v \<or>
         (\<exists>g \<in> set groups. symbol \<in> set (elements g) \<and> v = cs g) \<or>
         v = unknown_group) \<and>
        (v = [] \<longleftrightarrow> \<not> truthy (map_of (elems ! i) ''Group'') \<and> ?first_empty)"
  show "\<exists>r v. ?P r v"
  proof (cases "truthy (map_of (elems ! i) ''Group'')")
    case True
    then obtain v where v: "map_of (elems ! i) ''Group'' = Some v" "v \<noteq> []"
      by (cases "map_of (elems ! i) ''Group''") auto
    have "?P (elems ! i) v"
      using True v search_element_first [OF len i, of groups] by simp
    then show ?thesis by blast
  next
    case False
    let ?v = "find_group groups symbol"
    have "?P (AList.update ''Group'' ?v (elems ! i)) ?v"
      using False sym search_element_first [OF len i, of groups]
        find_group_cases [of groups symbol] find_group_empty_iff [of groups symbol]
      by (simp add: update_conv') blast
    then show ?thesis by blast
  qed
qed

theorem search_element_group_populated_witness:
  "\<exists>r v. search_element [[(''Symbol'', ''Li'')], [(''Symbol'', ''H'')]]
       [\<lparr>cs = ''Nonmetals'', elements = [''H'']\<rparr>, \<lparr>cs = '''', elements = [''H'', ''Li'']\<rparr>]
       ''Symbol'' ''H'' =
       ([MsgSearchResult], [[(''Symbol'', ''Li'')], r], Inr r) \<and>
     map_of r ''Group'' = Some v \<and> v \<noteq> []"
proof -
  let ?E = "[[(''Symbol'', ''Li'')], [(''Symbol'', ''H'')]]"
  let ?G = "[\<lparr>cs = ''Nonmetals'', elements = [''H'']\<rparr>, \<lparr>cs = '''', elements = [''H'', ''Li'']\<rparr>]"
  have len: "(1::nat) < length ?E" by simp
  have hyp: "map_of (?E ! 1) ''Symbol'' = Some ''H'' \<and>
      (\<forall>j < (1::nat). map_of (?E ! j) ''Symbol'' \<noteq> Some ''H'') \<and>
      map_of (?E ! 1) ''Symbol'' = Some ''H''"
    by simp
  have first: "\<not> (\<exists>k < length ?G.
      ''H'' \<in> set (elements (?G ! k)) \<and>
      (\<forall>j < k. ''H'' \<notin> set (elements (?G ! j))) \<and> cs (?G ! k) = [])"
  proof
    assume "\<exists>k < length ?G.
      ''H'' \<in> set (elements (?G ! k)) \<and>
      (\<forall>j < k. ''H'' \<notin> set (elements (?G ! j))) \<and> cs (?G ! k) = []"
    then obtain k where k: "k < length ?G" "\<forall>j < k. ''H'' \<notin> set (elements (?G ! j))"
      "cs (?G ! k) = []" by blast
    from k(1) have "k = 0 \<or> k = 1" by auto
    with k(2,3) show False by auto
  qed
  from search_element_group_populated [of ?E "''Symbol''" "''H''" ?G, rule_format, OF len hyp]
  obtain r v where
    r: "search_element ?E ?G ''Symbol'' ''H'' = ([MsgSearchResult], ?E[1 := r], Inr r)"
    and v: "map_of r ''Group'' = Some v"
    and ne: "v = [] \<longleftrightarrow> \<not> truthy (map_of (?E ! 1) ''Group'') \<and>
           (\<exists>k < length ?G.
              ''H'' \<in> set (elements (?G ! k)) \<and>
              (\<forall>j < k. ''H'' \<notin> set (elements (?G ! j))) \<and> cs (?G ! k) = [])"
    by blast
  from ne first have "v \<noteq> []" by blast
  moreover have "?E[1 := r] = [[(''Symbol'', ''Li'')], r]" by simp
  ultimately show ?thesis using r v by metis
qed

section \<open>Facts about the float model\<close>

lemma pow2_power_int: "pow2 k = power_int 2 k"
  by (simp add: pow2_def power_int_def inverse_eq_divide power_one_over)

lemma pow2_pos: "0 < pow2 k"
  by (simp add: pow2_power_int)

lemma pow2_add: "pow2 (a + b) = pow2 a * pow2 b"
  by (simp add: pow2_power_int power_int_add)


lemma bit_length_bounds:
  "0 < n \<Longrightarrow> 1 \<le> bit_length n \<and> 2 ^ nat (bit_length n - 1) \<le> n \<and> n < 2 ^ nat (bit_length n)"
proof (induction n rule: bit_length.induct)
  case (1 n)
  show ?case
  proof (cases "n = 1")
    case True
    have "bit_length 1 = 1"
      by (subst bit_length.simps, subst bit_length.simps) simp
    with True show ?thesis by simp
  next
    case False
    with "1.prems" have pos: "0 < n div 2" by simp
    let ?m = "n div 2"
    from "1.IH" pos "1.prems" have IH: "1 \<le> bit_length ?m"
      "2 ^ nat (bit_length ?m - 1) \<le> ?m" "?m < 2 ^ nat (bit_length ?m)"
      by auto
    have bl: "bit_length n = bit_length ?m + 1"
      using "1.prems" by (subst bit_length.simps) simp
    have e: "nat (bit_length ?m) = Suc (nat (bit_length ?m - 1))"
      using IH(1) by simp
    have "2 * ?m \<le> n" "n \<le> 2 * ?m + 1" by simp_all
    moreover have "2 * 2 ^ nat (bit_length ?m - 1) \<le> 2 * ?m" using IH(2) by simp
    moreover have "2 * ?m + 2 \<le> 2 * 2 ^ nat (bit_length ?m)" using IH(3) by simp
    ultimately have "2 ^ nat (bit_length ?m) \<le> n" "n < 2 ^ Suc (nat (bit_length ?m))"
      using e by simp_all
    moreover have "nat (bit_length n) = Suc (nat (bit_length ?m))"
      "nat (bit_length n - 1) = nat (bit_length ?m)" using bl IH(1) by simp_all
    ultimately show ?thesis using bl IH(1) by simp
  qed
qed

lemma bit_length_pow2:
  assumes "0 < n"
  shows "pow2 (bit_length n - 1) \<le> of_int n" "of_int n < pow2 (bit_length n)"
proof -
  from bit_length_bounds [OF assms]
  have b: "1 \<le> bit_length n" "2 ^ nat (bit_length n - 1) \<le> n" "n < 2 ^ nat (bit_length n)"
    by auto
  have "pow2 (bit_length n - 1) = of_int (2 ^ nat (bit_length n - 1))"
    using b(1) by (simp add: pow2_def)
  also have "\<dots> \<le> of_int n" using b(2) by (subst of_int_le_iff)
  finally show "pow2 (bit_length n - 1) \<le> of_int n" .
  have "(of_int n :: rat) < of_int (2 ^ nat (bit_length n))"
    using b(3) by (subst of_int_less_iff)
  also have "\<dots> = pow2 (bit_length n)" using b(1) by (simp add: pow2_def)
  finally show "of_int n < pow2 (bit_length n)" .
qed

lemma round_half_even_near: "\<bar>of_int (round_half_even x) - x\<bar> \<le> 1 / 2"
proof -
  define f where "f = \<lfloor>x\<rfloor>"
  have f: "of_int f \<le> x" "x < of_int f + 1" unfolding f_def by linarith+
  consider "x - of_int f < 1 / 2" | "1 / 2 < x - of_int f" | "x - of_int f = 1 / 2"
    by linarith
  then show ?thesis
  proof cases
    case 1
    then have "round_half_even x = f" by (simp add: round_half_even_def f_def)
    with 1 f show ?thesis by simp
  next
    case 2
    then have "round_half_even x = f + 1" by (simp add: round_half_even_def f_def)
    with 2 f show ?thesis by simp
  next
    case 3
    then have "round_half_even x = f \<or> round_half_even x = f + 1"
      by (simp add: round_half_even_def f_def Let_def)
    with 3 f show ?thesis by auto
  qed
qed

lemma floor_log2_bounds:
  assumes "0 < x"
  shows "pow2 (floor_log2 x) \<le> x" "x < pow2 (floor_log2 x + 1)"
proof -
  obtain p q where pq: "quotient_of x = (p, q)" by (cases "quotient_of x")
  then have q: "0 < q" and x: "x = of_int p / of_int q"
    using quotient_of_denom_pos quotient_of_div by blast+
  from assms x q have p: "0 < p" by (simp add: zero_less_divide_iff)
  define d where "d = bit_length p - bit_length q"
  have qpos: "(0::rat) < of_int q" using q by simp
  have "x < pow2 (bit_length p) / pow2 (bit_length q - 1)"
  proof -
    have "of_int p / of_int q < pow2 (bit_length p) / (of_int q :: rat)"
      using bit_length_pow2(2) [OF p] qpos by (simp add: divide_strict_right_mono)
    also have "\<dots> \<le> pow2 (bit_length p) / pow2 (bit_length q - 1)"
      using bit_length_pow2(1) [OF q] pow2_pos [of "bit_length p"] pow2_pos [of "bit_length q - 1"]
      by (simp add: frac_le)
    finally show ?thesis using x by simp
  qed
  moreover have "pow2 (d + 1) * pow2 (bit_length q - 1) = pow2 (bit_length p)"
    by (simp add: pow2_add [symmetric] d_def)
  then have "pow2 (bit_length p) / pow2 (bit_length q - 1) = pow2 (d + 1)"
    using pow2_pos [of "bit_length q - 1"] by (simp add: field_simps)
  ultimately have upper: "x < pow2 (d + 1)" by simp
  have "pow2 (bit_length p - 1) / pow2 (bit_length q) < x"
  proof -
    have "pow2 (bit_length p - 1) / pow2 (bit_length q) < pow2 (bit_length p - 1) / (of_int q :: rat)"
      using bit_length_pow2(2) [OF q] qpos pow2_pos [of "bit_length p - 1"]
      by (simp add: divide_strict_left_mono)
    also have "\<dots> \<le> of_int p / of_int q"
      using bit_length_pow2(1) [OF p] qpos by (simp add: divide_right_mono)
    finally show ?thesis using x by simp
  qed
  moreover have "pow2 (d - 1) * pow2 (bit_length q) = pow2 (bit_length p - 1)"
    by (simp add: pow2_add [symmetric] d_def)
  then have "pow2 (bit_length p - 1) / pow2 (bit_length q) = pow2 (d - 1)"
    using pow2_pos [of "bit_length q"] by (simp add: field_simps)
  ultimately have lower: "pow2 (d - 1) < x" by simp
  have fl: "floor_log2 x = (if pow2 d \<le> x then d else d - 1)"
    by (simp add: floor_log2_def pq d_def Let_def)
  show "pow2 (floor_log2 x) \<le> x" using fl lower by (auto simp: less_imp_le)
  show "x < pow2 (floor_log2 x + 1)" using fl upper by (auto simp: not_le)
qed

lemma round_half_even_le: "x \<le> of_int k \<Longrightarrow> round_half_even x \<le> k"
proof -
  assume le: "x \<le> of_int k"
  show ?thesis
  proof (cases "x = of_int k")
    case True
    then show ?thesis by (simp add: round_half_even_def)
  next
    case False
    with le have "x < of_int k" by simp
    then have "\<lfloor>x\<rfloor> < k" by (simp add: floor_less_iff)
    then show ?thesis by (auto simp: round_half_even_def Let_def)
  qed
qed

lemma round_half_even_ge: "of_int k \<le> x \<Longrightarrow> k \<le> round_half_even x"
proof -
  assume "of_int k \<le> x"
  then have "k \<le> \<lfloor>x\<rfloor>" by (simp add: le_floor_iff)
  then show ?thesis by (auto simp: round_half_even_def Let_def)
qed

lemma pow2_mono: "a \<le> b \<Longrightarrow> pow2 a \<le> pow2 b"
  by (simp add: pow2_power_int power_int_increasing)


text \<open>
  The rounded value is an integer multiple of the spacing of the floats around \<open>x\<close>, with
  a significand of at most 53 bits, and it is within half a spacing of \<open>x\<close>.
\<close>

lemma round_binary64_nearest:
  assumes "x \<noteq> 0"
  defines "q \<equiv> pow2 (max (floor_log2 \<bar>x\<bar>) (- 1022) - 52)"
  shows "round_binary64 x = of_int (round_half_even (x / q)) * q"
    and "\<bar>round_binary64 x - x\<bar> \<le> q / 2"
    and "\<bar>round_half_even (x / q)\<bar> \<le> 2 ^ 53"
proof -
  have qpos: "0 < q" by (simp add: q_def pow2_pos)
  show r: "round_binary64 x = of_int (round_half_even (x / q)) * q"
    using assms(1) by (simp add: round_binary64_def q_def Let_def)
  have "of_int (round_half_even (x / q)) * q - x = (of_int (round_half_even (x / q)) - x / q) * q"
    using qpos by (simp add: field_simps)
  then have "\<bar>round_binary64 x - x\<bar> = \<bar>of_int (round_half_even (x / q)) - x / q\<bar> * \<bar>q\<bar>"
    by (simp only: r abs_mult)
  also have "\<bar>q\<bar> = q" using qpos by simp
  also have "\<bar>of_int (round_half_even (x / q)) - x / q\<bar> * q \<le> (1 / 2) * q"
    using round_half_even_near [of "x / q"] qpos by (intro mult_right_mono) simp_all
  finally show "\<bar>round_binary64 x - x\<bar> \<le> q / 2" by simp
  have xpos: "0 < \<bar>x\<bar>" using assms(1) by simp
  let ?e = "max (floor_log2 \<bar>x\<bar>) (- 1022)"
  have "\<bar>x\<bar> < pow2 (floor_log2 \<bar>x\<bar> + 1)" by (rule floor_log2_bounds(2) [OF xpos])
  also have "\<dots> \<le> pow2 (?e + 1)" by (intro pow2_mono) simp
  also have "\<dots> = q * 2 ^ 53"
  proof -
    have "pow2 (?e + 1) = pow2 ((?e - 52) + 53)"
      by (rule arg_cong [where f = pow2]) linarith
    also have "\<dots> = pow2 (?e - 52) * pow2 53" by (rule pow2_add)
    also have "pow2 53 = 2 ^ 53" by (simp add: pow2_def)
    finally show ?thesis by (simp add: q_def)
  qed
  finally have "\<bar>x\<bar> / q < 2 ^ 53" using qpos by (simp add: field_simps)
  then have b: "\<bar>x / q\<bar> < 2 ^ 53" using qpos by (simp add: abs_of_pos)
  have "of_int (2 ^ 53) = (2 ^ 53 :: rat)" "of_int (- (2 ^ 53)) = - (2 ^ 53 :: rat)"
    by simp_all
  with b have "x / q \<le> of_int (2 ^ 53)" "of_int (- (2 ^ 53)) \<le> x / q"
    by linarith+
  from round_half_even_le [OF this(1)] round_half_even_ge [OF this(2)]
  show "\<bar>round_half_even (x / q)\<bar> \<le> 2 ^ 53" by simp
qed






section \<open>Average atomic mass\<close>








lemma statistics_mean_nonfinite:
  "statistics_mean [Finite 1, PosInf, NegZero] = Inr PosInf"
  "statistics_mean [PosInf, Finite 1, NegInf] = Inr NaN"
  "statistics_mean [NegZero] = Inr (Finite 0)"
  by (simp_all add: statistics_mean_def float_of_rat_def round_binary64_def binary64_max_def)


lemma collect_masses_bad:
  assumes "e \<in> set elems" "map_of e field = wanted" "map_of e ''AtomicMass'' = Some m"
    "flt m = None"
  shows "\<exists>err. collect_masses flt field wanted elems = Inl err"
  using assms
proof (induction elems)
  case Nil
  then show ?case by simp
next
  case (Cons a elems)
  show ?case
  proof (cases "a = e")
    case True
    with Cons.prems show ?thesis by (auto split: option.splits)
  next
    case False
    with Cons.prems have "\<exists>err. collect_masses flt field wanted elems = Inl err"
      by (intro Cons.IH) auto
    then show ?thesis by (auto split: option.splits)
  qed
qed

lemma collect_masses_error_kind:
  assumes "\<forall>e \<in> set elems. map_of e field \<noteq> None \<and> map_of e ''AtomicMass'' \<noteq> None"
    and "collect_masses flt field wanted elems = Inl err"
  shows "\<exists>m. flt m = None \<and> err = ValueError m"
  using assms
  by (induction elems) (auto split: option.splits if_splits sum.splits)

text \<open>
  Claim C4. Called with group and period both truthy, or with neither truthy,
  \<open>calculate_average_mass\<close> prints the corresponding diagnostic and returns 0.0 without
  raising. The outcome is the same for every element collection, every parser and every
  mean function, also for collections whose elements lack the fields or hold unparsable
  masses: the collection is not read, and the function has no way to change it.
\<close>

theorem calculate_average_mass_invalid_arguments:
  "(truthy grp \<and> truthy period \<longrightarrow>
      calculate_average_mass flt mean elems grp period = ([MsgBothGiven], Inr (Finite 0))) \<and>
   (\<not> truthy grp \<and> \<not> truthy period \<longrightarrow>
      calculate_average_mass flt mean elems grp period = ([MsgNeitherGiven], Inr (Finite 0)))"
  by (simp add: calculate_average_mass_def)

theorem calculate_average_mass_invalid_arguments_witness:
  "calculate_average_mass (\<lambda>s. None) statistics_mean
     [[], [(''AtomicMass'', ''x'')]] (Some ''1'') (Some ''2'') =
     ([MsgBothGiven], Inr (Finite 0)) \<and>
   calculate_average_mass (\<lambda>s. None) statistics_mean
     [[], [(''AtomicMass'', ''x'')]] (Some '''') None =
     ([MsgNeitherGiven], Inr (Finite 0))"
proof -
  let ?E = "[[], [(''AtomicMass'', ''x'')]] :: element list"
  let ?flt = "\<lambda>s :: string. None :: py_float option"
  have "truthy (Some ''1'') \<and> truthy (Some ''2'')" by simp
  moreover have "\<not> truthy (Some '''') \<and> \<not> truthy None" by simp
  ultimately show ?thesis
    using calculate_average_mass_invalid_arguments
            [where grp = "Some ''1''" and period = "Some ''2''" and flt = ?flt and mean = statistics_mean
               and elems = ?E]
      calculate_average_mass_invalid_arguments
            [where grp = "Some ''''" and period = None and flt = ?flt and mean = statistics_mean
               and elems = ?E]
    by blast
qed

text \<open>
  Claim C8. When the collection contains an element that the filter keeps and whose
  \<open>AtomicMass\<close> the parser rejects, the call of \<open>calculate_average_mass\<close> ends with an
  exception and prints nothing: the row is not skipped and no mean of the other rows is
  returned. When moreover every element has the compared field and an \<open>AtomicMass\<close>,
  the exception is the \<open>ValueError\<close> of a rejected mass.
\<close>

theorem calculate_average_mass_malformed:
  assumes "e \<in> set elems" "map_of e ''AtomicMass'' = Some m" "flt m = None"
  shows
   "(truthy grp \<and> \<not> truthy period \<and> map_of e ''Group'' = grp \<longrightarrow>
       (\<exists>err. calculate_average_mass flt mean elems grp period = ([], Inl err)) \<and>
       ((\<forall>a \<in> set elems. map_of a ''Group'' \<noteq> None \<and> map_of a ''AtomicMass'' \<noteq> None) \<longrightarrow>
          (\<exists>m'. flt m' = None \<and>
             calculate_average_mass flt mean elems grp period = ([], Inl (ValueError m'))))) \<and>
    (\<not> truthy grp \<and> truthy period \<and> map_of e ''Period'' = period \<longrightarrow>
       (\<exists>err. calculate_average_mass flt mean elems grp period = ([], Inl err)) \<and>
       ((\<forall>a \<in> set elems. map_of a ''Period'' \<noteq> None \<and> map_of a ''AtomicMass'' \<noteq> None) \<longrightarrow>
          (\<exists>m'. flt m' = None \<and>
             calculate_average_mass flt mean elems grp period = ([], Inl (ValueError m')))))"
proof -
  have branch: "(\<exists>err. (case collect_masses flt field wanted elems of
           Inl err \<Rightarrow> ([], Inl err)
         | Inr filtered_elements \<Rightarrow> report_average mean filtered_elements) = ([], Inl err)) \<and>
       ((\<forall>a \<in> set elems. map_of a field \<noteq> None \<and> map_of a ''AtomicMass'' \<noteq> None) \<longrightarrow>
          (\<exists>m'. flt m' = None \<and>
             (case collect_masses flt field wanted elems of
           Inl err \<Rightarrow> ([], Inl err)
         | Inr filtered_elements \<Rightarrow> report_average mean filtered_elements) =
             ([], Inl (ValueError m'))))"
    if "map_of e field = wanted" for field wanted
  proof -
    from collect_masses_bad [where flt = flt, OF assms(1) that assms(2,3)]
    obtain err where err: "collect_masses flt field wanted elems = Inl err" by blast
    then show ?thesis using collect_masses_error_kind [of elems field flt wanted err] by auto
  qed
  show ?thesis
    using branch [of "''Group''" grp] branch [of "''Period''" period]
    by (simp add: calculate_average_mass_def)
qed

theorem calculate_average_mass_malformed_witness:
  "calculate_average_mass (map_of [(''1.008'', Finite (1134907106097365 / 1125899906842624))]) statistics_mean
     [[(''Group'', ''1''), (''AtomicMass'', ''1.008'')],
      [(''Group'', ''1''), (''AtomicMass'', ''n/a'')]] (Some ''1'') None =
   ([], Inl (ValueError ''n/a''))"
proof -
  let ?flt = "map_of [(''1.008'', Finite (1134907106097365 / 1125899906842624))]"
  let ?e = "[(''Group'', ''1''), (''AtomicMass'', ''n/a'')]"
  let ?E = "[[(''Group'', ''1''), (''AtomicMass'', ''1.008'')], ?e]"
  have "?e \<in> set ?E" "map_of ?e ''AtomicMass'' = Some ''n/a''" "?flt ''n/a'' = None"
    by simp_all
  from calculate_average_mass_malformed
         [where flt = ?flt and mean = statistics_mean and grp = "Some ''1''" and period = None, OF this]
  have "\<exists>err. calculate_average_mass ?flt statistics_mean ?E (Some ''1'') None = ([], Inl err)"
    by simp
  then show ?thesis by (auto simp: calculate_average_mass_def)
qed




section \<open>The exported selection\<close>

lemma read_symbols_append:
  "(\<forall>s \<in> set requested. strip s \<noteq> []) \<Longrightarrow> strip blank = [] \<Longrightarrow>
   read_symbols strip (requested @ blank # rest) acc = Inr (acc @ map strip requested)"
  by (induction requested arbitrary: acc) (auto simp: Let_def)

lemma select_elements_filter:
  "(\<forall>e \<in> set elems. map_of e ''Symbol'' \<noteq> None) \<Longrightarrow>
   select_elements selected elems =
     Inr (filter (\<lambda>e. \<exists>s \<in> set selected. map_of e ''Symbol'' = Some s) elems)"
  by (induction elems) (auto split: option.splits)

lemma select_elements_missing:
  "(\<exists>e \<in> set elems. map_of e ''Symbol'' = None) \<Longrightarrow>
   select_elements selected elems = Inl (KeyError ''Symbol'')"
proof (induction elems)
  case Nil
  then show ?case by simp
next
  case (Cons a elems)
  show ?case
  proof (cases "map_of a ''Symbol''")
    case None
    then show ?thesis by simp
  next
    case (Some symbol)
    with Cons.prems have "\<exists>e \<in> set elems. map_of e ''Symbol'' = None" by auto
    from Cons.IH [OF this] Some show ?thesis by simp
  qed
qed

text \<open>
  Claim C7 says that for every element collection \<open>export_to_json\<close> writes the elements
  whose \<open>Symbol\<close> was requested. Line 124 indexes \<open>Symbol\<close> unguarded: with an element
  that has no such field the call raises \<open>KeyError\<close> and writes nothing, also when
  another element was requested and is present. (The two lines typed here have no
  surrounding whitespace, so stripping leaves them as they are.)
\<close>

theorem export_to_json_selects_counterexample:
  "export_to_json (\<lambda>line. line)
     [[(''Symbol'', ''H''), (''Element'', ''Hydrogen'')], [(''Element'', ''Helium'')]]
     [''H'', ''''] =
   Inl (KeyError ''Symbol'')"
  by (simp add: export_to_json_def)

text \<open>
  Claim C7, as the code has it. Let every element have a \<open>Symbol\<close>. When the user types
  the lines \<open>requested\<close>, none of them blank after stripping, and then a blank line,
  \<open>export_to_json\<close> writes exactly the elements whose \<open>Symbol\<close> is one of the requested
  symbols (the stripped lines), each element whole, in the order of the collection and not
  of the request; a requested symbol that no element has changes nothing. When some
  element has no \<open>Symbol\<close>, the call raises \<open>KeyError\<close> instead. In particular,
  requesting \<open>H\<close> and \<open>Xx\<close> from a collection where one element has the symbol \<open>H\<close>
  and none has \<open>Xx\<close> writes that one element.
\<close>

theorem export_to_json_selects:
  "((\<forall>e \<in> set elems. map_of e ''Symbol'' \<noteq> None) \<and>
    (\<forall>s \<in> set requested. strip s \<noteq> []) \<and> strip blank = [] \<longrightarrow>
    export_to_json strip elems (requested @ blank # rest) =
      Inr (filter (\<lambda>e. \<exists>s \<in> set requested. map_of e ''Symbol'' = Some (strip s)) elems)) \<and>
   ((\<exists>e \<in> set elems. map_of e ''Symbol'' = None) \<and>
    (\<forall>s \<in> set requested. strip s \<noteq> []) \<and> strip blank = [] \<longrightarrow>
    export_to_json strip elems (requested @ blank # rest) = Inl (KeyError ''Symbol'')) \<and>
   (strip ''H'' = ''H'' \<and> strip ''Xx'' = ''Xx'' \<and> strip '''' = '''' \<and>
    map_of h ''Symbol'' = Some ''H'' \<and>
    (\<forall>e \<in> set before \<union> set after.
       \<exists>s. map_of e ''Symbol'' = Some s \<and> s \<noteq> ''H'' \<and> s \<noteq> ''Xx'') \<longrightarrow>
    export_to_json strip (before @ h # after) [''H'', ''Xx'', ''''] = Inr [h])"
proof -
  have general: "export_to_json strip es (req @ b # rest) =
      Inr (filter (\<lambda>e. \<exists>s \<in> set req. map_of e ''Symbol'' = Some (strip s)) es)"
    if "\<forall>e \<in> set es. map_of e ''Symbol'' \<noteq> None" "\<forall>s \<in> set req. strip s \<noteq> []"
      "strip b = []" for es req b rest
    using that
    by (simp add: export_to_json_def read_symbols_append select_elements_filter)
  have missing: "export_to_json strip elems (requested @ blank # rest) = Inl (KeyError ''Symbol'')"
    if "\<exists>e \<in> set elems. map_of e ''Symbol'' = None" "\<forall>s \<in> set requested. strip s \<noteq> []"
      "strip blank = []"
    using that
    by (simp add: export_to_json_def read_symbols_append select_elements_missing)
  have example: "export_to_json strip (before @ h # after) [''H'', ''Xx'', ''''] = Inr [h]"
    if s: "strip ''H'' = ''H''" "strip ''Xx'' = ''Xx''" "strip '''' = ''''"
      and h: "map_of h ''Symbol'' = Some ''H''"
      and others: "\<forall>e \<in> set before \<union> set after.
         \<exists>s. map_of e ''Symbol'' = Some s \<and> s \<noteq> ''H'' \<and> s \<noteq> ''Xx''"
  proof -
    have "\<forall>e \<in> set (before @ h # after). map_of e ''Symbol'' \<noteq> None"
      using h others by auto
    moreover have "\<forall>s \<in> set [''H'', ''Xx'']. strip s \<noteq> []"
      by (simp add: s)
    ultimately have "export_to_json strip (before @ h # after) ([''H'', ''Xx''] @ '''' # []) =
      Inr (filter (\<lambda>e. \<exists>s \<in> set [''H'', ''Xx'']. map_of e ''Symbol'' = Some (strip s))
             (before @ h # after))"
      by (intro general) (simp_all add: s)
    moreover have "filter (\<lambda>e. \<exists>s \<in> set [''H'', ''Xx'']. map_of e ''Symbol'' = Some (strip s)) xs = []"
      if "\<forall>e \<in> set xs. \<exists>s. map_of e ''Symbol'' = Some s \<and> s \<noteq> ''H'' \<and> s \<noteq> ''Xx''" for xs
      using that by (induction xs) (auto simp: s)
    ultimately show ?thesis using h others by (simp add: s)
  qed
  show ?thesis
    apply (intro conjI impI)
    subgoal using general by blast
    subgoal using missing by blast
    subgoal using example by blast
    done
qed

theorem export_to_json_selects_witness:
  "export_to_json
     (\<lambda>line. case map_of [('' Li'', ''Li''), (''H '', ''H'')] line of
                None \<Rightarrow> line | Some symbol \<Rightarrow> symbol)
     [[(''Symbol'', ''H''), (''Element'', ''Hydrogen''), (''AtomicMass'', ''1.008'')],
      [(''Symbol'', ''He''), (''Element'', ''Helium'')],
      [(''Symbol'', ''Li''), (''Element'', ''Lithium'')]]
     ['' Li'', ''Xx'', ''H '', '''', ''He''] =
   Inr [[(''Symbol'', ''H''), (''Element'', ''Hydrogen''), (''AtomicMass'', ''1.008'')],
        [(''Symbol'', ''Li''), (''Element'', ''Lithium'')]]"
proof -
  let ?strip = "\<lambda>line. case map_of [('' Li'', ''Li''), (''H '', ''H'')] line of
                None \<Rightarrow> line | Some symbol \<Rightarrow> symbol"
  let ?E = "[[(''Symbol'', ''H''), (''Element'', ''Hydrogen''), (''AtomicMass'', ''1.008'')],
      [(''Symbol'', ''He''), (''Element'', ''Helium'')],
      [(''Symbol'', ''Li''), (''Element'', ''Lithium'')]]"
  have s: "?strip '' Li'' = ''Li''" "?strip ''Xx'' = ''Xx''" "?strip ''H '' = ''H''"
    "?strip '''' = ''''"
    by simp_all
  have "(\<forall>e \<in> set ?E. map_of e ''Symbol'' \<noteq> None) \<and>
    (\<forall>s \<in> set ['' Li'', ''Xx'', ''H '']. ?strip s \<noteq> []) \<and> ?strip '''' = []"
    by simp
  with export_to_json_selects
         [where strip = ?strip and elems = ?E and requested = "['' Li'', ''Xx'', ''H '']"
            and blank = "''''" and rest = "[''He'']"]
  have "export_to_json ?strip ?E (['' Li'', ''Xx'', ''H ''] @ '''' # [''He'']) =
      Inr (filter (\<lambda>e. \<exists>s \<in> set ['' Li'', ''Xx'', ''H '']. map_of e ''Symbol'' = Some (?strip s)) ?E)"
    by blast
  then show ?thesis by simp
qed

end
